theory Spec2Isabelle
  imports Main
begin

section \<open>Rectangle\<close>

text \<open>
  \<^verbatim>\<open>function Rectangle(width, height) { this.width = width; this.height = height; }\<close>
  \<^verbatim>\<open>Rectangle.prototype.getArea = function getArea() { return this.width * this.height; };\<close>

  The numbers of the source are kept abstract: any type with a multiplication. The
  product of \<open>getArea\<close> is whatever that multiplication gives.
\<close>

record 'n Rectangle =
  width :: 'n
  height :: 'n

definition Rectangle :: "'n \<Rightarrow> 'n \<Rightarrow> 'n Rectangle" where
  "Rectangle w h = \<lparr>width = w, height = h\<rparr>"

definition getArea :: "('n::times) Rectangle \<Rightarrow> 'n" where
  "getArea this = width this * height this"

section \<open>The selector builder\<close>

subsection \<open>Values of the host language\<close>

text \<open>
  Names are strings. A field initialised with \<^verbatim>\<open>null\<close> is a \<open>string option\<close>;
  the test \<^verbatim>\<open>if (this.f)\<close> on such a field is true exactly for a non-empty string.
\<close>

definition truthy :: "string option \<Rightarrow> bool" where
  "truthy v = (case v of None \<Rightarrow> False | Some s \<Rightarrow> s \<noteq> [])"

text \<open>\<^verbatim>\<open>Array.prototype.join\<close> on an array of strings.\<close>

fun join :: "string \<Rightarrow> string list \<Rightarrow> string" where
  "join sep [] = []"
| "join sep [x] = x"
| "join sep (x # y # ys) = x @ sep @ join sep (y # ys)"

text \<open>
  Every \<^verbatim>\<open>throw new Error(msg)\<close> of the source is \<open>Error msg\<close>. \<open>TypeError\<close> is what
  the engine raises when a method is called on a value that does not have it, and
  when \<^verbatim>\<open>Object.setPrototypeOf\<close> is given \<^verbatim>\<open>null\<close>; \<open>SyntaxError\<close> is what
  \<^verbatim>\<open>JSON.parse\<close> raises.
\<close>

datatype error = Error string | TypeError | SyntaxError

definition order_message :: string where
  "order_message = ''Selector parts should be arranged in the following order: element, id, class, attribute, pseudo-class, pseudo-element''"

definition duplicate_message :: string where
  "duplicate_message = ''Element, id and pseudo-element should not occur more then one time inside the selector''"

subsection \<open>class SimpleSelector\<close>

record SimpleSelector =
  el :: "string option"
  elId :: "string option"
  classes :: "string list"
  attribute :: "string option"
  pseudoClassEl :: "string list"
  pseudoElementEl :: "string list"

text \<open>The constructor.\<close>

definition new_SimpleSelector :: SimpleSelector where
  "new_SimpleSelector =
     \<lparr>el = None, elId = None, classes = [], attribute = None,
      pseudoClassEl = [], pseudoElementEl = []\<rparr>"

text \<open>
  A method runs on the object \<open>this\<close> and gives the pair of its completion and the
  state of \<open>this\<close> when it completes. The completion is the thrown error (\<open>Inl\<close>) or
  the returned value: \<open>This\<close> for \<^verbatim>\<open>return this\<close>, \<open>Value v\<close> for a returned string.
\<close>

datatype returned = This | Value string

type_synonym completion = "(error + returned) \<times> SimpleSelector"

definition element :: "string \<Rightarrow> SimpleSelector \<Rightarrow> completion" where
  "element e this =
     (if truthy (elId this) \<or> length (classes this) \<noteq> 0 \<or> truthy (attribute this)
         \<or> length (pseudoClassEl this) \<noteq> 0 \<or> length (pseudoElementEl this) \<noteq> 0
      then (Inl (Error order_message), this)
      else if truthy (el this)
      then (Inl (Error duplicate_message), this)
      else (Inr (Value e), this\<lparr>el := Some e\<rparr>))"

definition id_part :: "string \<Rightarrow> SimpleSelector \<Rightarrow> completion" where
  "id_part val this =
     (if length (classes this) \<noteq> 0 \<or> truthy (attribute this)
         \<or> length (pseudoClassEl this) \<noteq> 0 \<or> length (pseudoElementEl this) \<noteq> 0
      then (Inl (Error order_message), this)
      else if truthy (elId this)
      then (Inl (Error duplicate_message), this)
      else (Inr This, this\<lparr>elId := Some val\<rparr>))"

text \<open>\<^verbatim>\<open>class(...vals)\<close>: the rest parameter is the list of the arguments.\<close>

definition class_part :: "string list \<Rightarrow> SimpleSelector \<Rightarrow> completion" where
  "class_part vals this =
     (if truthy (attribute this) \<or> length (pseudoClassEl this) \<noteq> 0
         \<or> length (pseudoElementEl this) \<noteq> 0
      then (Inl (Error order_message), this)
      else (Inr This, this\<lparr>classes := classes this @ vals\<rparr>))"

definition attr :: "string \<Rightarrow> SimpleSelector \<Rightarrow> completion" where
  "attr v this =
     (if length (pseudoClassEl this) \<noteq> 0 \<or> length (pseudoElementEl this) \<noteq> 0
      then (Inl (Error order_message), this)
      else (Inr This, this\<lparr>attribute := Some v\<rparr>))"

definition pseudoClass :: "string list \<Rightarrow> SimpleSelector \<Rightarrow> completion" where
  "pseudoClass vals this =
     (if length (pseudoElementEl this) \<noteq> 0
      then (Inl (Error order_message), this)
      else (Inr This, this\<lparr>pseudoClassEl := pseudoClassEl this @ vals\<rparr>))"

definition pseudoElement :: "string \<Rightarrow> SimpleSelector \<Rightarrow> completion" where
  "pseudoElement v this =
     (if length (pseudoElementEl this) \<noteq> 0
      then (Inl (Error duplicate_message), this)
      else (Inr This, this\<lparr>pseudoElementEl := pseudoElementEl this @ [v]\<rparr>))"

text \<open>
  \<^verbatim>\<open>output += ...\<close> appends to \<open>output\<close>. A field is read (\<open>the\<close>) only under its own
  test, where it is a string.
\<close>

definition stringify :: "SimpleSelector \<Rightarrow> string" where
  "stringify this =
     (let output = [];
          output = (if truthy (el this) then output @ the (el this) else output);
          output = (if truthy (elId this) then output @ ''#'' @ the (elId this) else output);
          output = (if length (classes this) \<noteq> 0
                    then output @ ''.'' @ join ''.'' (classes this) else output);
          output = (if truthy (attribute this)
                    then output @ ''['' @ the (attribute this) @ '']'' else output);
          output = (if length (pseudoClassEl this) \<noteq> 0
                    then output @ '':'' @ join '':'' (pseudoClassEl this) else output);
          output = (if length (pseudoElementEl this) \<noteq> 0
                    then output @ ''::'' @ join ''::'' (pseudoElementEl this) else output)
      in output)"

subsection \<open>CombinedSelector\<close>

text \<open>
  The two children of a combined selector are selectors of either kind, so the two
  kinds form one recursive type; \<open>stringify_selector\<close> is the dynamic dispatch of
  \<^verbatim>\<open>stringify()\<close> on it. The arguments of \<open>CombinedSelector\<close> are the fields
  \<^verbatim>\<open>s1\<close>, \<^verbatim>\<open>sep\<close> and \<^verbatim>\<open>s2\<close>.
\<close>

datatype selector =
  Simple SimpleSelector
| CombinedSelector selector string selector

fun stringify_selector :: "selector \<Rightarrow> string" where
  "stringify_selector (Simple this) = stringify this"
| "stringify_selector (CombinedSelector s1 sep s2) =
     stringify_selector s1 @ '' '' @ sep @ '' '' @ stringify_selector s2"

definition combine :: "selector \<Rightarrow> string \<Rightarrow> selector \<Rightarrow> selector" where
  "combine selector1 combinator selector2 = CombinedSelector selector1 combinator selector2"

subsection \<open>Calls and chains\<close>

text \<open>
  A call of one of the six methods with its arguments; \<open>Class\<close> and \<open>PseudoClass\<close>
  carry the list of the arguments of the rest parameter.
\<close>

datatype part =
  Element string
| Id string
| Class "string list"
| Attr string
| PseudoClass "string list"
| PseudoElement string

fun call :: "part \<Rightarrow> SimpleSelector \<Rightarrow> completion" where
  "call (Element n) this = element n this"
| "call (Id n) this = id_part n this"
| "call (Class ns) this = class_part ns this"
| "call (Attr n) this = attr n this"
| "call (PseudoClass ns) this = pseudoClass ns this"
| "call (PseudoElement n) this = pseudoElement n this"

text \<open>
  What the caller of a method holds afterwards: the selector, when the method
  returned \<open>this\<close>, or the returned string.
\<close>

datatype jsvalue = Selector SimpleSelector | Str string

fun returned_value :: "completion \<Rightarrow> error + jsvalue" where
  "returned_value (Inl e, this) = Inl e"
| "returned_value (Inr This, this) = Inr (Selector this)"
| "returned_value (Inr (Value v), this) = Inr (Str v)"

text \<open>A string has none of the six methods and no \<^verbatim>\<open>stringify\<close>: calling one is a TypeError.\<close>

fun invoke :: "part \<Rightarrow> jsvalue \<Rightarrow> error + jsvalue" where
  "invoke p (Selector this) = returned_value (call p this)"
| "invoke p (Str v) = Inl TypeError"

fun stringify_value :: "jsvalue \<Rightarrow> error + string" where
  "stringify_value (Selector this) = Inr (stringify this)"
| "stringify_value (Str v) = Inl TypeError"

subsection \<open>The facade cssSelectorBuilder\<close>

definition builder_element :: "string \<Rightarrow> error + jsvalue" where
  "builder_element v = (let s = new_SimpleSelector; s = s\<lparr>el := Some v\<rparr> in Inr (Selector s))"

definition builder_id :: "string \<Rightarrow> error + jsvalue" where
  "builder_id v = returned_value (id_part v new_SimpleSelector)"

definition builder_class :: "string \<Rightarrow> error + jsvalue" where
  "builder_class v = returned_value (class_part [v] new_SimpleSelector)"

definition builder_attr :: "string \<Rightarrow> error + jsvalue" where
  "builder_attr v = returned_value (attr v new_SimpleSelector)"

definition builder_pseudoClass :: "string \<Rightarrow> error + jsvalue" where
  "builder_pseudoClass v = returned_value (pseudoClass [v] new_SimpleSelector)"

definition builder_pseudoElement :: "string \<Rightarrow> error + jsvalue" where
  "builder_pseudoElement v = returned_value (pseudoElement v new_SimpleSelector)"

text \<open>The six categories of parts, in the order of the messages.\<close>

datatype category = CElement | CId | CClass | CAttribute | CPseudoClass | CPseudoElement

fun builder :: "category \<Rightarrow> string \<Rightarrow> error + jsvalue" where
  "builder CElement v = builder_element v"
| "builder CId v = builder_id v"
| "builder CClass v = builder_class v"
| "builder CAttribute v = builder_attr v"
| "builder CPseudoClass v = builder_pseudoClass v"
| "builder CPseudoElement v = builder_pseudoElement v"

text \<open>
  A chain \<^verbatim>\<open>builder.c(v).p1(..).p2(..) ...\<close>: one call of the facade, then method calls
  on what the previous call returned. The first error ends it.
\<close>

fun chain_from :: "jsvalue \<Rightarrow> part list \<Rightarrow> error + jsvalue" where
  "chain_from x [] = Inr x"
| "chain_from x (p # ps) =
     (case invoke p x of Inl e \<Rightarrow> Inl e | Inr y \<Rightarrow> chain_from y ps)"

definition chain :: "category \<Rightarrow> string \<Rightarrow> part list \<Rightarrow> error + jsvalue" where
  "chain c v ps = (case builder c v of Inl e \<Rightarrow> Inl e | Inr x \<Rightarrow> chain_from x ps)"

definition chain_stringify :: "category \<Rightarrow> string \<Rightarrow> part list \<Rightarrow> error + string" where
  "chain_stringify c v ps =
     (case chain c v ps of Inl e \<Rightarrow> Inl e | Inr x \<Rightarrow> stringify_value x)"

subsection \<open>Categories of parts\<close>

fun category_of :: "part \<Rightarrow> category" where
  "category_of (Element n) = CElement"
| "category_of (Id n) = CId"
| "category_of (Class ns) = CClass"
| "category_of (Attr n) = CAttribute"
| "category_of (PseudoClass ns) = CPseudoClass"
| "category_of (PseudoElement n) = CPseudoElement"

text \<open>The position of a category in the fixed order.\<close>

fun rank :: "category \<Rightarrow> nat" where
  "rank CElement = 0"
| "rank CId = 1"
| "rank CClass = 2"
| "rank CAttribute = 3"
| "rank CPseudoClass = 4"
| "rank CPseudoElement = 5"

text \<open>The part that a call of the facade adds: \<^verbatim>\<open>builder.class(v)\<close> passes the one name \<open>v\<close>.\<close>

fun first_part :: "category \<Rightarrow> string \<Rightarrow> part" where
  "first_part CElement v = Element v"
| "first_part CId v = Id v"
| "first_part CClass v = Class [v]"
| "first_part CAttribute v = Attr v"
| "first_part CPseudoClass v = PseudoClass [v]"
| "first_part CPseudoElement v = PseudoElement v"

text \<open>
  A category is populated on a selector when its field holds a non-empty name
  (element, id, attribute) or at least one entry (class, pseudo-class,
  pseudo-element). A field set to the empty string is not populated.
\<close>

fun populated :: "category \<Rightarrow> SimpleSelector \<Rightarrow> bool" where
  "populated CElement s = (el s \<noteq> None \<and> el s \<noteq> Some [])"
| "populated CId s = (elId s \<noteq> None \<and> elId s \<noteq> Some [])"
| "populated CClass s = (classes s \<noteq> [])"
| "populated CAttribute s = (attribute s \<noteq> None \<and> attribute s \<noteq> Some [])"
| "populated CPseudoClass s = (pseudoClassEl s \<noteq> [])"
| "populated CPseudoElement s = (pseudoElementEl s \<noteq> [])"

subsection \<open>The specified rendering\<close>

text \<open>
  The data model of the specification: three optional names, one optional attribute
  expression and two sequences of names. Each add-part operation sets its field or
  appends to its sequence.
\<close>

record SelectorParts =
  elementName :: "string option"
  idName :: "string option"
  classNames :: "string list"
  attributeExpr :: "string option"
  pseudoClassNames :: "string list"
  pseudoElementName :: "string option"

definition no_parts :: SelectorParts where
  "no_parts =
     \<lparr>elementName = None, idName = None, classNames = [], attributeExpr = None,
      pseudoClassNames = [], pseudoElementName = None\<rparr>"

fun add_part :: "part \<Rightarrow> SelectorParts \<Rightarrow> SelectorParts" where
  "add_part (Element n) t = t\<lparr>elementName := Some n\<rparr>"
| "add_part (Id n) t = t\<lparr>idName := Some n\<rparr>"
| "add_part (Class ns) t = t\<lparr>classNames := classNames t @ ns\<rparr>"
| "add_part (Attr n) t = t\<lparr>attributeExpr := Some n\<rparr>"
| "add_part (PseudoClass ns) t = t\<lparr>pseudoClassNames := pseudoClassNames t @ ns\<rparr>"
| "add_part (PseudoElement n) t = t\<lparr>pseudoElementName := Some n\<rparr>"

definition parts_of :: "part list \<Rightarrow> SelectorParts" where
  "parts_of ps = foldl (\<lambda>t p. add_part p t) no_parts ps"

text \<open>
  The rendering as the specification words it: the element name without prefix, then
  \<open>#\<close> and the id name, then every class name preceded by \<open>.\<close>, then the attribute
  expression in brackets, then every pseudo-class name preceded by \<open>:\<close>, then \<open>::\<close>
  and the pseudo-element name; a part is present when it has been set.
\<close>

definition render :: "SelectorParts \<Rightarrow> string" where
  "render t =
     (case elementName t of None \<Rightarrow> [] | Some n \<Rightarrow> n)
     @ (case idName t of None \<Rightarrow> [] | Some n \<Rightarrow> ''#'' @ n)
     @ concat (map (\<lambda>n. ''.'' @ n) (classNames t))
     @ (case attributeExpr t of None \<Rightarrow> [] | Some e \<Rightarrow> ''['' @ e @ '']'')
     @ concat (map (\<lambda>n. '':'' @ n) (pseudoClassNames t))
     @ (case pseudoElementName t of None \<Rightarrow> [] | Some n \<Rightarrow> ''::'' @ n)"

text \<open>
  A sequence of calls respects the category order when the ranks never decrease, and
  the singleton limits when element, id, attribute and pseudo-element occur at most
  once each.
\<close>

definition category_order :: "part list \<Rightarrow> bool" where
  "category_order ps = sorted (map (\<lambda>p. rank (category_of p)) ps)"

definition occurrences :: "category \<Rightarrow> part list \<Rightarrow> nat" where
  "occurrences c ps = length (filter (\<lambda>p. category_of p = c) ps)"

definition singleton_limits :: "part list \<Rightarrow> bool" where
  "singleton_limits ps =
     (occurrences CElement ps \<le> 1 \<and> occurrences CId ps \<le> 1
      \<and> occurrences CAttribute ps \<le> 1 \<and> occurrences CPseudoElement ps \<le> 1)"

text \<open>The id name or attribute expression of a call is not the empty string.\<close>

fun nonempty_name :: "part \<Rightarrow> bool" where
  "nonempty_name (Id n) = (n \<noteq> [])"
| "nonempty_name (Attr n) = (n \<noteq> [])"
| "nonempty_name p = True"

text \<open>
  The link between the two data models, for the proofs: the parts that a selector
  object holds, the condition under which its two renderings agree, and the
  condition under which a call passes every check of its method.
\<close>

definition parts_in :: "SimpleSelector \<Rightarrow> SelectorParts" where
  "parts_in s =
     \<lparr>elementName = el s, idName = elId s, classNames = classes s,
      attributeExpr = attribute s, pseudoClassNames = pseudoClassEl s,
      pseudoElementName = (case pseudoElementEl s of [] \<Rightarrow> None | n # ns \<Rightarrow> Some n)\<rparr>"

definition consistent :: "SimpleSelector \<Rightarrow> bool" where
  "consistent s =
     (elId s \<noteq> Some [] \<and> attribute s \<noteq> Some [] \<and> length (pseudoElementEl s) \<le> 1)"

fun admits :: "SimpleSelector \<Rightarrow> part \<Rightarrow> bool" where
  "admits s (Element n) =
     (el s = None \<and> elId s = None \<and> classes s = [] \<and> attribute s = None
      \<and> pseudoClassEl s = [] \<and> pseudoElementEl s = [])"
| "admits s (Id n) =
     (elId s = None \<and> classes s = [] \<and> attribute s = None
      \<and> pseudoClassEl s = [] \<and> pseudoElementEl s = [])"
| "admits s (Class ns) =
     (attribute s = None \<and> pseudoClassEl s = [] \<and> pseudoElementEl s = [])"
| "admits s (Attr n) =
     (attribute s = None \<and> pseudoClassEl s = [] \<and> pseudoElementEl s = [])"
| "admits s (PseudoClass ns) = (pseudoElementEl s = [])"
| "admits s (PseudoElement n) = (pseudoElementEl s = [])"

section \<open>fromJSON\<close>

text \<open>
  \<^verbatim>\<open>function fromJSON(proto, json) {\<close>
  \<^verbatim>\<open>  const res = JSON.parse(json); Object.setPrototypeOf(res, proto); return res; }\<close>

  The values that \<^verbatim>\<open>JSON.parse\<close> produces, with the numbers kept abstract.
\<close>

datatype 'n json =
  JNull
| JBoolean bool
| JNumber 'n
| JString string
| JArray "'n json list"
| JObject "(string \<times> 'n json) list"

text \<open>
  A parsed value after \<^verbatim>\<open>Object.setPrototypeOf\<close>: \<open>Tagged proto v\<close> is the object or
  array \<open>v\<close> with the prototype \<open>proto\<close>, \<open>Plain v\<close> is a value whose prototype was not
  changed.
\<close>

datatype ('n, 'p) tagged = Plain "'n json" | Tagged 'p "'n json"

text \<open>The prototype objects that the source defines, for the examples.\<close>

datatype prototype = Rectangle_prototype | SimpleSelector_prototype | CombinedSelector_prototype

text \<open>
  \<^verbatim>\<open>Object.setPrototypeOf(obj, proto)\<close> of the language, for a prototype object \<open>proto\<close>
  and a freshly parsed \<open>obj\<close>: a TypeError on \<^verbatim>\<open>null\<close>; a boolean, number or string
  is returned as it is; an object or an array gets the prototype.
\<close>

definition Object_setPrototypeOf :: "'n json \<Rightarrow> 'p \<Rightarrow> error + ('n, 'p) tagged" where
  "Object_setPrototypeOf obj proto =
     (case obj of
        JNull \<Rightarrow> Inl TypeError
      | JArray xs \<Rightarrow> Inr (Tagged proto obj)
      | JObject fs \<Rightarrow> Inr (Tagged proto obj)
      | _ \<Rightarrow> Inr (Plain obj))"

text \<open>
  \<^verbatim>\<open>JSON.parse\<close> is a parameter: it gives \<open>None\<close> where the engine throws its
  SyntaxError, that is, on a text that is not well-formed JSON.
\<close>

definition fromJSON :: "(string \<Rightarrow> 'n json option) \<Rightarrow> 'p \<Rightarrow> string \<Rightarrow> error + ('n, 'p) tagged" where
  "fromJSON JSON_parse proto json =
     (case JSON_parse json of
        None \<Rightarrow> Inl SyntaxError
      | Some res \<Rightarrow> Object_setPrototypeOf res proto)"

section \<open>Properties of Rectangle\<close>

text \<open>
  C7: for all numbers \<open>w\<close> and \<open>h\<close>, the value built by \<open>Rectangle w h\<close> has width \<open>w\<close>
  and height \<open>h\<close>, and its area operation returns \<open>w * h\<close>.
\<close>

theorem Rectangle_getArea:
  "width (Rectangle w h) = w \<and> height (Rectangle w h) = h
   \<and> getArea (Rectangle w h) = w * h"
  by (simp add: Rectangle_def getArea_def)

text \<open>\<^verbatim>\<open>new Rectangle(10,20).getArea()\<close> is 200.\<close>

theorem Rectangle_getArea_witness:
  "width (Rectangle (10::int) 20) = 10 \<and> height (Rectangle (10::int) 20) = 20
   \<and> getArea (Rectangle (10::int) 20) = 200"
  using Rectangle_getArea [of "10::int" 20] by simp

section \<open>Properties of the selector builder\<close>

subsection \<open>Combined selectors\<close>

text \<open>
  C6: for all selectors \<open>a\<close> and \<open>b\<close>, simple or combined, and every combinator
  string \<open>c\<close>, the combined selector renders as the rendering of \<open>a\<close>, a space, \<open>c\<close>
  as it was given, a space, and the rendering of \<open>b\<close>. A space combinator nested in
  another combination therefore comes out as three spaces.
\<close>

theorem combine_stringify:
  "stringify_selector (combine a c b)
     = stringify_selector a @ '' '' @ c @ '' '' @ stringify_selector b
   \<and> stringify_selector (combine x ''~'' (combine y '' '' z))
     = stringify_selector x @ '' ~ '' @ stringify_selector y @ ''   '' @ stringify_selector z"
  by (simp add: combine_def)

text \<open>
  The example of the source: \<^verbatim>\<open>table#data\<close> combined by \<^verbatim>\<open>~\<close> with the combination
  of \<^verbatim>\<open>tr:nth-of-type(even)\<close> and \<^verbatim>\<open>td:nth-of-type(even)\<close> by a space.
\<close>

theorem combine_stringify_witness:
  "stringify_selector
     (combine
        (Simple (new_SimpleSelector\<lparr>el := Some ''table'', elId := Some ''data''\<rparr>))
        ''~''
        (combine
           (Simple (new_SimpleSelector\<lparr>el := Some ''tr'', pseudoClassEl := [''nth-of-type(even)'']\<rparr>))
           '' ''
           (Simple (new_SimpleSelector\<lparr>el := Some ''td'', pseudoClassEl := [''nth-of-type(even)'']\<rparr>))))
   = ''table#data ~ tr:nth-of-type(even)   td:nth-of-type(even)''"
proof -
  let ?x = "Simple (new_SimpleSelector\<lparr>el := Some ''table'', elId := Some ''data''\<rparr>)"
  let ?y = "Simple (new_SimpleSelector\<lparr>el := Some ''tr'', pseudoClassEl := [''nth-of-type(even)'']\<rparr>)"
  let ?z = "Simple (new_SimpleSelector\<lparr>el := Some ''td'', pseudoClassEl := [''nth-of-type(even)'']\<rparr>)"
  have x: "stringify_selector ?x = ''table#data''"
    by (simp add: stringify_def new_SimpleSelector_def truthy_def)
  have y: "stringify_selector ?y = ''tr:nth-of-type(even)''"
    by (simp add: stringify_def new_SimpleSelector_def truthy_def)
  have z: "stringify_selector ?z = ''td:nth-of-type(even)''"
    by (simp add: stringify_def new_SimpleSelector_def truthy_def)
  from combine_stringify [of ?x "''~''" ?y ?x ?y ?z]
  have "stringify_selector (combine ?x ''~'' (combine ?y '' '' ?z))
          = stringify_selector ?x @ '' ~ '' @ stringify_selector ?y @ ''   ''
            @ stringify_selector ?z"
    by (rule conjunct2)
  then show ?thesis
    unfolding x y z by simp
qed

subsection \<open>The methods of a simple selector\<close>

lemmas method_defs =
  element_def id_part_def class_part_def attr_def pseudoClass_def pseudoElement_def

text \<open>
  C9: every add-part operation is atomic. Whenever a call throws, no field of the
  selector has been modified, since every check of a method precedes its
  assignment; the rendering of the selector is then what it was before the call.
\<close>

theorem call_atomic:
  assumes "fst (call p s) = Inl e"
  shows "snd (call p s) = s \<and> stringify (snd (call p s)) = stringify s"
  using assms by (cases p) (auto simp: method_defs split: if_splits)

text \<open>\<^verbatim>\<open>builder.id('main').class('container')\<close>, then a second \<^verbatim>\<open>id('other')\<close>.\<close>

theorem call_atomic_witness:
  "fst (call (Id ''other'')
          (new_SimpleSelector\<lparr>elId := Some ''main'', classes := [''container'']\<rparr>))
     = Inl (Error order_message)
   \<and> snd (call (Id ''other'')
          (new_SimpleSelector\<lparr>elId := Some ''main'', classes := [''container'']\<rparr>))
     = new_SimpleSelector\<lparr>elId := Some ''main'', classes := [''container'']\<rparr>
   \<and> stringify (snd (call (Id ''other'')
          (new_SimpleSelector\<lparr>elId := Some ''main'', classes := [''container'']\<rparr>)))
     = ''#main.container''"
proof -
  let ?s = "new_SimpleSelector\<lparr>elId := Some ''main'', classes := [''container'']\<rparr>"
  have thrown: "fst (call (Id ''other'') ?s) = Inl (Error order_message)"
    by (simp add: id_part_def new_SimpleSelector_def)
  have "stringify ?s = ''#main.container''"
    by (simp add: stringify_def new_SimpleSelector_def truthy_def)
  with thrown call_atomic [OF thrown] show ?thesis by simp
qed

subsection \<open>Rendering of a chain of calls\<close>

lemma join_prefixed: "xs \<noteq> [] \<Longrightarrow> d @ join d xs = concat (map (\<lambda>n. d @ n) xs)"
  by (induction d xs rule: join.induct) auto

text \<open>
  On a selector without an empty id name, an empty attribute expression or a second
  pseudo-element, the method \<open>stringify\<close> gives the specified rendering of its parts.
\<close>

lemma stringify_render:
  assumes c: "consistent s"
  shows "stringify s = render (parts_in s)"
proof -
  have cl: "(if length (classes s) \<noteq> 0 then ''.'' @ join ''.'' (classes s) else [])
              = concat (map (\<lambda>n. ''.'' @ n) (classes s))"
    using join_prefixed [of "classes s" "''.''"] by simp
  have pc: "(if length (pseudoClassEl s) \<noteq> 0 then '':'' @ join '':'' (pseudoClassEl s) else [])
              = concat (map (\<lambda>n. '':'' @ n) (pseudoClassEl s))"
    using join_prefixed [of "pseudoClassEl s" "'':''"] by simp
  have pe: "(if length (pseudoElementEl s) \<noteq> 0
             then ''::'' @ join ''::'' (pseudoElementEl s) else [])
              = (case pseudoElementEl s of [] \<Rightarrow> [] | n # ns \<Rightarrow> ''::'' @ n)"
    using c by (cases "pseudoElementEl s") (auto simp: consistent_def)
  have e: "(if truthy (el s) then the (el s) else [])
             = (case el s of None \<Rightarrow> [] | Some n \<Rightarrow> n)"
    by (auto simp: truthy_def split: option.splits)
  have i: "(if truthy (elId s) then ''#'' @ the (elId s) else [])
             = (case elId s of None \<Rightarrow> [] | Some n \<Rightarrow> ''#'' @ n)"
    using c by (auto simp: truthy_def consistent_def split: option.splits)
  have a: "(if truthy (attribute s) then ''['' @ the (attribute s) @ '']'' else [])
             = (case attribute s of None \<Rightarrow> [] | Some n \<Rightarrow> ''['' @ n @ '']'')"
    using c by (auto simp: truthy_def consistent_def split: option.splits)
  have "stringify s =
      (if truthy (el s) then the (el s) else [])
      @ (if truthy (elId s) then ''#'' @ the (elId s) else [])
      @ (if length (classes s) \<noteq> 0 then ''.'' @ join ''.'' (classes s) else [])
      @ (if truthy (attribute s) then ''['' @ the (attribute s) @ '']'' else [])
      @ (if length (pseudoClassEl s) \<noteq> 0 then '':'' @ join '':'' (pseudoClassEl s) else [])
      @ (if length (pseudoElementEl s) \<noteq> 0
         then ''::'' @ join ''::'' (pseudoElementEl s) else [])"
    by (simp add: stringify_def Let_def)
  also have "\<dots> =
      (case el s of None \<Rightarrow> [] | Some n \<Rightarrow> n)
      @ (case elId s of None \<Rightarrow> [] | Some n \<Rightarrow> ''#'' @ n)
      @ concat (map (\<lambda>n. ''.'' @ n) (classes s))
      @ (case attribute s of None \<Rightarrow> [] | Some n \<Rightarrow> ''['' @ n @ '']'')
      @ concat (map (\<lambda>n. '':'' @ n) (pseudoClassEl s))
      @ (case pseudoElementEl s of [] \<Rightarrow> [] | n # ns \<Rightarrow> ''::'' @ n)"
    by (simp only: cl pc pe e i a)
  also have "\<dots> = render (parts_in s)"
    by (simp add: render_def parts_in_def split: list.splits)
  finally show ?thesis .
qed

text \<open>A call that the selector admits passes the checks and adds its part.\<close>

lemma call_admitted:
  assumes "admits s p" and "nonempty_name p" and "consistent s"
  shows "fst (call p s) = Inr (case p of Element n \<Rightarrow> Value n | _ \<Rightarrow> This)
     \<and> consistent (snd (call p s))
     \<and> parts_in (snd (call p s)) = add_part p (parts_in s)"
  using assms
  by (cases p) (auto simp: method_defs truthy_def consistent_def parts_in_def)

lemma later_not_same_singleton:
  assumes "occurrences c (p # ps) \<le> 1" and "category_of p = c" and "q \<in> set ps"
  shows "category_of q \<noteq> c"
proof
  assume "category_of q = c"
  with assms(3) have "q \<in> set (filter (\<lambda>p. category_of p = c) ps)"
    by simp
  then have "0 < length (filter (\<lambda>p. category_of p = c) ps)"
    by (rule length_pos_if_in_set)
  with assms(1,2) show False
    by (simp add: occurrences_def)
qed

text \<open>What a later call of a valid sequence needs is still there after an earlier one.\<close>

lemma admits_after:
  assumes "category_order (p # ps)" and "singleton_limits (p # ps)"
    and "admits s p" and "q \<in> set ps" and "admits s q"
  shows "admits (snd (call p s)) q"
proof -
  from assms(1,4) have r: "rank (category_of p) \<le> rank (category_of q)"
    by (auto simp: category_order_def)
  have d: "category_of p \<in> {CElement, CId, CAttribute, CPseudoElement}
             \<Longrightarrow> category_of q \<noteq> category_of p"
    using later_not_same_singleton [OF _ refl assms(4), of p] assms(2)
    by (auto simp: singleton_limits_def)
  show ?thesis
    using r d assms(3,5)
    by (cases p; cases q) (auto simp: method_defs truthy_def)
qed

lemma valid_tail:
  "category_order (p # ps) \<Longrightarrow> category_order ps"
  "singleton_limits (p # ps) \<Longrightarrow> singleton_limits ps"
  by (auto simp: category_order_def singleton_limits_def occurrences_def split: if_splits)

lemma tail_not_element:
  assumes "category_order (p # ps)" and "singleton_limits (p # ps)" and "q \<in> set ps"
  shows "category_of q \<noteq> CElement"
proof (cases "category_of p = CElement")
  case True
  then show ?thesis
    using later_not_same_singleton [OF _ True assms(3)] assms(2)
    by (simp add: singleton_limits_def)
next
  case False
  from assms(1,3) have "rank (category_of p) \<le> rank (category_of q)"
    by (auto simp: category_order_def)
  with False show ?thesis
    by (cases "category_of p") auto
qed

lemma chain_from_valid:
  assumes "category_order ps" and "singleton_limits ps" and "list_all nonempty_name ps"
    and "consistent s" and "\<forall>q\<in>set ps. admits s q \<and> category_of q \<noteq> CElement"
  shows "\<exists>s'. chain_from (Selector s) ps = Inr (Selector s') \<and> consistent s'
           \<and> parts_in s' = foldl (\<lambda>t p. add_part p t) (parts_in s) ps"
  using assms
proof (induction ps arbitrary: s)
  case Nil
  then show ?case by simp
next
  case (Cons p ps)
  obtain r t where c: "call p s = (r, t)"
    by (cases "call p s")
  from Cons.prems have ad: "admits s p" and ne: "category_of p \<noteq> CElement" and nm: "nonempty_name p"
    by auto
  from call_admitted [OF ad nm Cons.prems(4)] c ne
  have r: "r = Inr This" and c1: "consistent t" and p1: "parts_in t = add_part p (parts_in s)"
    by (cases p; simp)+
  have a1: "\<forall>q\<in>set ps. admits t q \<and> category_of q \<noteq> CElement"
  proof
    fix q assume q: "q \<in> set ps"
    with Cons.prems(5) have "admits s q"
      by simp
    from admits_after [OF Cons.prems(1,2) ad q this] c have "admits t q"
      by simp
    moreover have "category_of q \<noteq> CElement"
      using Cons.prems(5) q by simp
    ultimately show "admits t q \<and> category_of q \<noteq> CElement" ..
  qed
  from Cons.IH [OF valid_tail(1) [OF Cons.prems(1)] valid_tail(2) [OF Cons.prems(2)] _ c1 a1]
    Cons.prems(3)
  obtain s' where "chain_from (Selector t) ps = Inr (Selector s')" "consistent s'"
    "parts_in s' = foldl (\<lambda>t p. add_part p t) (parts_in t) ps"
    by auto
  then show ?case
    using c r p1 by simp
qed

text \<open>The facade gives the new selector after the first part.\<close>

lemma builder_first_part:
  "builder c v = Inr (Selector (snd (call (first_part c v) new_SimpleSelector)))"
  by (cases c)
     (simp_all add: builder_element_def builder_id_def builder_class_def builder_attr_def
        builder_pseudoClass_def builder_pseudoElement_def method_defs new_SimpleSelector_def
        truthy_def)

lemma new_admits: "admits new_SimpleSelector p"
  by (cases p) (simp_all add: new_SimpleSelector_def)

lemma new_consistent: "consistent new_SimpleSelector" "parts_in new_SimpleSelector = no_parts"
  by (simp_all add: consistent_def parts_in_def no_parts_def new_SimpleSelector_def)

text \<open>
  The rendering of the chains with an empty name: \<^verbatim>\<open>builder.id('').stringify()\<close> and
  \<^verbatim>\<open>builder.attr('').stringify()\<close> are the empty string, where the specified
  rendering of a selector whose id name or attribute expression is set to the empty
  string is \<open>#\<close> or \<open>[]\<close>; and \<^verbatim>\<open>builder.pseudoElement('').stringify()\<close> is
  \<open>::\<close>, so that a pseudo-element name that is empty is rendered, while an id name
  that is empty is not.
\<close>

theorem stringify_empty_id_counterexample:
  "chain_stringify CId '''' [] = Inr ''''
   \<and> render (parts_of (first_part CId '''' # [])) = ''#''
   \<and> chain_stringify CId '''' [] \<noteq> Inr (render (parts_of (first_part CId '''' # [])))
   \<and> chain_stringify CAttribute '''' [] = Inr ''''
   \<and> render (parts_of (first_part CAttribute '''' # [])) = ''[]''
   \<and> chain_stringify CPseudoElement '''' [] = Inr ''::''"
  by (simp add: chain_stringify_def chain_def builder_id_def builder_attr_def
      builder_pseudoElement_def id_part_def attr_def pseudoElement_def new_SimpleSelector_def
      truthy_def stringify_def render_def parts_of_def no_parts_def)

text \<open>
  C1 (amended): for every sequence of add-part calls that respects the category order
  and the singleton limits, and in which the id name and the attribute expression are
  not the empty string, the chain throws nothing and \<open>stringify\<close> on the resulting
  selector returns exactly the specified concatenation: the element name, then \<open>#\<close>
  and the id name, then each class name preceded by \<open>.\<close>, then the attribute
  expression in brackets, then each pseudo-class name preceded by \<open>:\<close>, then \<open>::\<close>
  and the pseudo-element name, each part being there when it was added.
\<close>

theorem stringify_valid_chain:
  assumes order: "category_order (first_part c v # ps)"
    and limits: "singleton_limits (first_part c v # ps)"
    and names: "list_all nonempty_name (first_part c v # ps)"
  shows "chain_stringify c v ps = Inr (render (parts_of (first_part c v # ps)))"
proof -
  let ?p = "first_part c v"
  let ?s = "snd (call ?p new_SimpleSelector)"
  from names have nm: "nonempty_name ?p" and nms: "list_all nonempty_name ps"
    by simp_all
  from call_admitted [OF new_admits nm new_consistent(1)]
  have c0: "consistent ?s" and p0: "parts_in ?s = add_part ?p no_parts"
    by (simp_all add: new_consistent(2))
  have a0: "\<forall>q\<in>set ps. admits ?s q \<and> category_of q \<noteq> CElement"
  proof
    fix q assume q: "q \<in> set ps"
    from admits_after [OF order limits new_admits q new_admits] have "admits ?s q" .
    moreover from tail_not_element [OF order limits q] have "category_of q \<noteq> CElement" .
    ultimately show "admits ?s q \<and> category_of q \<noteq> CElement" ..
  qed
  from chain_from_valid [OF valid_tail(1) [OF order] valid_tail(2) [OF limits] nms c0 a0]
  obtain s' where run: "chain_from (Selector ?s) ps = Inr (Selector s')"
    and c': "consistent s'"
    and p': "parts_in s' = foldl (\<lambda>t p. add_part p t) (parts_in ?s) ps"
    by blast
  from run have "chain_stringify c v ps = Inr (stringify s')"
    by (simp add: chain_stringify_def chain_def builder_first_part)
  also have "stringify s' = render (parts_in s')"
    using c' by (rule stringify_render)
  also have "parts_in s' = parts_of (?p # ps)"
    by (simp add: p' p0 parts_of_def)
  finally show ?thesis .
qed

text \<open>\<^verbatim>\<open>builder.id('main').class('container').class('editable').stringify()\<close>\<close>

theorem stringify_valid_chain_witness:
  "category_order (first_part CId ''main'' # [Class [''container''], Class [''editable'']])
   \<and> singleton_limits (first_part CId ''main'' # [Class [''container''], Class [''editable'']])
   \<and> list_all nonempty_name (first_part CId ''main'' # [Class [''container''], Class [''editable'']])
   \<and> chain_stringify CId ''main'' [Class [''container''], Class [''editable'']]
       = Inr ''#main.container.editable''"
proof -
  let ?ps = "[Class [''container''], Class [''editable'']]"
  have order: "category_order (first_part CId ''main'' # ?ps)"
    by (simp add: category_order_def)
  have limits: "singleton_limits (first_part CId ''main'' # ?ps)"
    by (simp add: singleton_limits_def occurrences_def)
  have names: "list_all nonempty_name (first_part CId ''main'' # ?ps)"
    by simp
  have "render (parts_of (first_part CId ''main'' # ?ps)) = ''#main.container.editable''"
    by (simp add: render_def parts_of_def no_parts_def)
  with stringify_valid_chain [OF order limits names] order limits names
  show ?thesis by simp
qed

subsection \<open>The order of the parts\<close>

lemma returned_value_thrown: "fst x = Inl e \<Longrightarrow> returned_value x = Inl e"
  by (cases x) simp

lemma chain_from_single: "chain_from x [p] = invoke p x"
  by (simp split: sum.splits)

text \<open>
  \<^verbatim>\<open>builder.attr('').class('a')\<close>: the call of \<^verbatim>\<open>class()\<close> follows a call of
  \<^verbatim>\<open>attr()\<close> on the same chain and throws nothing, since the method tests the
  attribute by the truth value of the string. It returns the selector, which renders
  as \<open>.a\<close>.
\<close>

theorem order_error_empty_name_counterexample:
  "chain CAttribute '''' [Class [''a'']]
     = Inr (Selector (new_SimpleSelector\<lparr>classes := [''a''], attribute := Some ''''\<rparr>))
   \<and> chain CAttribute '''' [Class [''a'']]
     \<noteq> Inl (Error ''Selector parts should be arranged in the following order: element, id, class, attribute, pseudo-class, pseudo-element'')
   \<and> chain_stringify CAttribute '''' [Class [''a'']] = Inr ''.a''"
  by (simp add: chain_stringify_def chain_def builder_attr_def attr_def class_part_def
      new_SimpleSelector_def truthy_def stringify_def)

text \<open>
  C4 (amended): a call of an add-part operation whose category precedes a category
  that already holds a non-empty name (element, id, attribute) or at least one entry
  (class, pseudo-class, pseudo-element) on the selector fails with the error whose
  message is exactly "Selector parts should be arranged in the following order:
  element, id, class, attribute, pseudo-class, pseudo-element"; in particular
  \<^verbatim>\<open>class()\<close> after \<^verbatim>\<open>attr()\<close> with a non-empty expression on the same chain raises
  this error.
\<close>

theorem order_error:
  assumes "rank (category_of p) < rank c" and "populated c s"
  shows "fst (call p s) = Inl (Error ''Selector parts should be arranged in the following order: element, id, class, attribute, pseudo-class, pseudo-element'')"
  using assms
  by (cases p; cases c)
     (auto simp: method_defs truthy_def order_message_def split: option.splits)

text \<open>\<^verbatim>\<open>builder.attr('href').class('container')\<close>: \<^verbatim>\<open>class()\<close> after \<^verbatim>\<open>attr()\<close>.\<close>

theorem order_error_witness:
  "rank (category_of (Class [''container''])) < rank CAttribute
   \<and> populated CAttribute (new_SimpleSelector\<lparr>attribute := Some ''href''\<rparr>)
   \<and> chain CAttribute ''href'' [Class [''container'']]
       = Inl (Error ''Selector parts should be arranged in the following order: element, id, class, attribute, pseudo-class, pseudo-element'')"
proof -
  let ?s = "new_SimpleSelector\<lparr>attribute := Some ''href''\<rparr>"
  have r: "rank (category_of (Class [''container''])) < rank CAttribute"
    by simp
  have p: "populated CAttribute ?s"
    by simp
  have b: "builder CAttribute ''href'' = Inr (Selector ?s)"
    by (simp add: builder_attr_def attr_def new_SimpleSelector_def)
  have "chain CAttribute ''href'' [Class [''container'']]
          = returned_value (call (Class [''container'']) ?s)"
    unfolding chain_def b by (simp only: sum.case chain_from_single invoke.simps)
  with returned_value_thrown [OF order_error [OF r p]] r p show ?thesis
    by simp
qed

subsection \<open>Parts given twice\<close>

text \<open>
  A second \<^verbatim>\<open>id()\<close> on a chain fails with the message that the source spells "more
  then one time", not "more than one time"; after a class has been added it fails
  with the message of the order instead; and after \<^verbatim>\<open>id('')\<close> it does not fail.
\<close>

theorem duplicate_message_counterexample:
  "chain CId ''main'' [Id ''other'']
     = Inl (Error ''Element, id and pseudo-element should not occur more then one time inside the selector'')
   \<and> chain CId ''main'' [Id ''other'']
     \<noteq> Inl (Error ''Element, id and pseudo-element should not occur more than one time inside the selector'')
   \<and> chain CId ''main'' [Class [''container''], Id ''other''] = Inl (Error order_message)
   \<and> chain CId '''' [Id ''other''] = Inr (Selector (new_SimpleSelector\<lparr>elId := Some ''other''\<rparr>))"
  by (simp add: chain_def builder_id_def id_part_def class_part_def new_SimpleSelector_def
      truthy_def duplicate_message_def)

text \<open>
  C5 (amended): a call of \<^verbatim>\<open>id()\<close> on a selector whose id name is already a non-empty
  string, with no later category populated, fails with the error whose message is
  exactly "Element, id and pseudo-element should not occur more then one time inside
  the selector". The same message is raised by \<^verbatim>\<open>element()\<close> when the element name
  is already a non-empty string and no later category is populated, and by
  \<^verbatim>\<open>pseudoElement()\<close> when a pseudo-element is already there.
\<close>

theorem duplicate_error:
  assumes "category_of p = CElement \<or> category_of p = CId \<or> category_of p = CPseudoElement"
    and "populated (category_of p) s"
    and "\<forall>c. rank (category_of p) < rank c \<longrightarrow> \<not> populated c s"
  shows "fst (call p s) = Inl (Error ''Element, id and pseudo-element should not occur more then one time inside the selector'')"
proof -
  from assms(3) have later: "\<And>c. rank (category_of p) < rank c \<Longrightarrow> \<not> populated c s"
    by blast
  show ?thesis
  proof (cases p)
    case (Element n)
    with later [of CId] later [of CClass] later [of CAttribute] later [of CPseudoClass]
      later [of CPseudoElement] assms(2)
    show ?thesis
      by (auto simp: element_def truthy_def duplicate_message_def split: option.splits)
  next
    case (Id n)
    with later [of CClass] later [of CAttribute] later [of CPseudoClass]
      later [of CPseudoElement] assms(2)
    show ?thesis
      by (auto simp: id_part_def truthy_def duplicate_message_def split: option.splits)
  next
    case (PseudoElement n)
    with assms(2) show ?thesis
      by (simp add: pseudoElement_def duplicate_message_def)
  qed (use assms(1) in simp_all)
qed

text \<open>\<^verbatim>\<open>builder.id('main').id('other')\<close>\<close>

theorem duplicate_error_witness:
  "(category_of (Id ''other'') = CElement \<or> category_of (Id ''other'') = CId
      \<or> category_of (Id ''other'') = CPseudoElement)
   \<and> populated (category_of (Id ''other'')) (new_SimpleSelector\<lparr>elId := Some ''main''\<rparr>)
   \<and> (\<forall>c. \<not> (rank (category_of (Id ''other'')) < rank c
              \<and> populated c (new_SimpleSelector\<lparr>elId := Some ''main''\<rparr>)))
   \<and> chain CId ''main'' [Id ''other'']
       = Inl (Error ''Element, id and pseudo-element should not occur more then one time inside the selector'')"
proof -
  let ?s = "new_SimpleSelector\<lparr>elId := Some ''main''\<rparr>"
  have k: "category_of (Id ''other'') = CElement \<or> category_of (Id ''other'') = CId
      \<or> category_of (Id ''other'') = CPseudoElement"
    by simp
  have p: "populated (category_of (Id ''other'')) ?s"
    by simp
  have l: "\<forall>c. rank (category_of (Id ''other'')) < rank c \<longrightarrow> \<not> populated c ?s"
  proof (intro allI impI)
    fix c assume "rank (category_of (Id ''other'')) < rank c"
    then show "\<not> populated c ?s"
      by (cases c) (simp_all add: new_SimpleSelector_def)
  qed
  have b: "builder CId ''main'' = Inr (Selector ?s)"
    by (simp add: builder_id_def id_part_def new_SimpleSelector_def truthy_def)
  have "chain CId ''main'' [Id ''other''] = returned_value (call (Id ''other'') ?s)"
    unfolding chain_def b by (simp only: sum.case chain_from_single invoke.simps)
  with returned_value_thrown [OF duplicate_error [OF k p l]] k p l show ?thesis
    by simp
qed

text \<open>
  \<^verbatim>\<open>builder.attr('lang').attr('title')\<close> throws nothing: the second call returns the
  selector.
\<close>

theorem attr_twice_counterexample:
  "chain CAttribute ''lang'' [Attr ''title'']
     = Inr (Selector (new_SimpleSelector\<lparr>attribute := Some ''title''\<rparr>))"
  by (simp add: chain_def builder_attr_def attr_def new_SimpleSelector_def)

text \<open>
  C3 (amended): a call of \<^verbatim>\<open>attr(expr)\<close> on a simple selector, whether or not its
  attribute expression is already set, never fails as a duplicate. It fails exactly
  when a pseudo-class or a pseudo-element has already been added, with the error of
  the order of the parts, and otherwise it returns the selector.
\<close>

theorem attr_no_duplicate_error:
  "fst (attr v s) =
     (if populated CPseudoClass s \<or> populated CPseudoElement s
      then Inl (Error ''Selector parts should be arranged in the following order: element, id, class, attribute, pseudo-class, pseudo-element'')
      else Inr This)
   \<and> fst (attr v s) \<noteq> Inl (Error duplicate_message)"
  by (simp add: attr_def order_message_def duplicate_message_def)

theorem attr_no_duplicate_error_witness:
  "fst (attr ''title'' (new_SimpleSelector\<lparr>attribute := Some ''lang''\<rparr>)) = Inr This
   \<and> fst (attr ''title'' (new_SimpleSelector\<lparr>pseudoClassEl := [''focus'']\<rparr>))
       = Inl (Error order_message)"
  using attr_no_duplicate_error [of "''title''" "new_SimpleSelector\<lparr>attribute := Some ''lang''\<rparr>"]
    attr_no_duplicate_error [of "''title''" "new_SimpleSelector\<lparr>pseudoClassEl := [''focus'']\<rparr>"]
  by (simp add: new_SimpleSelector_def order_message_def)

subsection \<open>What the method element returns\<close>

text \<open>
  C2: the method \<^verbatim>\<open>element\<close> of a simple selector returns the name it was given and
  never the selector. \<^verbatim>\<open>builder.element('').element('div')\<close> is the string
  \<^verbatim>\<open>'div'\<close>, on which a further add-part call and \<^verbatim>\<open>stringify()\<close> are TypeErrors,
  while \<^verbatim>\<open>builder.id('').id('main')\<close> is a selector.
\<close>

theorem element_returns_name:
  "fst (element n s) \<noteq> Inr This
   \<and> chain CElement '''' [Element ''div''] = Inr (Str ''div'')
   \<and> chain CElement '''' [Element ''div'', Id ''main''] = Inl TypeError
   \<and> chain_stringify CElement '''' [Element ''div''] = Inl TypeError
   \<and> chain CId '''' [Id ''main''] = Inr (Selector (new_SimpleSelector\<lparr>elId := Some ''main''\<rparr>))"
  by (simp add: element_def id_part_def chain_stringify_def chain_def builder_element_def
      builder_id_def new_SimpleSelector_def truthy_def)

theorem element_returns_name_witness:
  "fst (element ''div'' (new_SimpleSelector\<lparr>el := Some ''''\<rparr>)) = Inr (Value ''div'')
   \<and> chain CElement '''' [Element ''div''] = Inr (Str ''div'')"
  using element_returns_name [of "''div''" "new_SimpleSelector\<lparr>el := Some ''''\<rparr>"]
  by (simp add: element_def new_SimpleSelector_def truthy_def)

subsection \<open>Empty names\<close>

text \<open>
  C10: an id name, element name or attribute expression set to the empty string is
  treated as absent. After \<^verbatim>\<open>id('')\<close>, \<^verbatim>\<open>element('')\<close> or \<^verbatim>\<open>attr('')\<close> the selector
  renders as it would with that field not set at all, and a further call that sets
  the same field does not fail as a duplicate, since the methods test the field by
  the truth value of the string.
\<close>

theorem empty_name_absent:
  "(call (Id '''') s = (Inr This, t) \<longrightarrow>
      stringify t = stringify (t\<lparr>elId := None\<rparr>)
      \<and> fst (call (Id v) t) \<noteq> Inl (Error duplicate_message))
   \<and> (call (Element '''') s = (Inr (Value ''''), t) \<longrightarrow>
      stringify t = stringify (t\<lparr>el := None\<rparr>)
      \<and> fst (call (Element v) t) \<noteq> Inl (Error duplicate_message))
   \<and> (call (Attr '''') s = (Inr This, t) \<longrightarrow>
      stringify t = stringify (t\<lparr>attribute := None\<rparr>)
      \<and> fst (call (Attr v) t) \<noteq> Inl (Error duplicate_message))"
  by (auto simp: method_defs stringify_def truthy_def order_message_def duplicate_message_def
      split: if_splits)

text \<open>\<^verbatim>\<open>builder.id('')\<close>, its rendering, and \<^verbatim>\<open>builder.id('').id('main')\<close>.\<close>

theorem empty_name_absent_witness:
  "call (Id '''') new_SimpleSelector = (Inr This, new_SimpleSelector\<lparr>elId := Some ''''\<rparr>)
   \<and> stringify (new_SimpleSelector\<lparr>elId := Some ''''\<rparr>) = ''''
   \<and> fst (call (Id ''main'') (new_SimpleSelector\<lparr>elId := Some ''''\<rparr>)) = Inr This
   \<and> chain_stringify CId '''' [] = Inr ''''
   \<and> chain_stringify CId '''' [Id ''main''] = Inr ''#main''"
proof -
  let ?t = "new_SimpleSelector\<lparr>elId := Some ''''\<rparr>"
  have c: "call (Id '''') new_SimpleSelector = (Inr This, ?t)"
    by (simp add: id_part_def new_SimpleSelector_def truthy_def)
  have n: "stringify (?t\<lparr>elId := None\<rparr>) = ''''"
    by (simp add: stringify_def new_SimpleSelector_def truthy_def)
  from empty_name_absent [of new_SimpleSelector ?t "''main''"] c
  have "stringify ?t = stringify (?t\<lparr>elId := None\<rparr>)"
    and "fst (call (Id ''main'') ?t) \<noteq> Inl (Error duplicate_message)"
    by blast+
  with c n show ?thesis
    by (simp add: chain_stringify_def chain_def builder_id_def id_part_def
        new_SimpleSelector_def truthy_def stringify_def)
qed

section \<open>Properties of fromJSON\<close>

text \<open>
  The text \<^verbatim>\<open>null\<close> is well-formed JSON and parses to \<^verbatim>\<open>null\<close>, on which
  \<^verbatim>\<open>Object.setPrototypeOf\<close> throws a TypeError: nothing is returned.
\<close>

theorem fromJSON_null_counterexample:
  "fromJSON [''null'' \<mapsto> JNull :: int json] Rectangle_prototype ''null'' = Inl TypeError"
  by (simp add: fromJSON_def Object_setPrototypeOf_def)

text \<open>
  C8 (amended): \<open>fromJSON\<close> fails with the SyntaxError of the parser if and only if
  the text is not well-formed JSON; for a well-formed text whose value is an object
  or an array it returns the parsed value with the given prototype.
\<close>

theorem fromJSON_tagged:
  "(fromJSON JSON_parse proto json = Inl SyntaxError \<longleftrightarrow> JSON_parse json = None)
   \<and> (\<forall>fs. JSON_parse json = Some (JObject fs) \<longrightarrow>
        fromJSON JSON_parse proto json = Inr (Tagged proto (JObject fs)))
   \<and> (\<forall>xs. JSON_parse json = Some (JArray xs) \<longrightarrow>
        fromJSON JSON_parse proto json = Inr (Tagged proto (JArray xs)))"
  by (auto simp: fromJSON_def Object_setPrototypeOf_def split: option.splits json.splits)

text \<open>
  With a parser that reads \<^verbatim>\<open>{"width":10,"height":20}\<close> and rejects \<^verbatim>\<open>{"width":\<close>.
\<close>

theorem fromJSON_tagged_witness:
  "fromJSON [''{\"width\":10,\"height\":20}''
               \<mapsto> JObject [(''width'', JNumber (10::int)), (''height'', JNumber 20)]]
      Rectangle_prototype ''{\"width\":10,\"height\":20}''
     = Inr (Tagged Rectangle_prototype
              (JObject [(''width'', JNumber 10), (''height'', JNumber 20)]))
   \<and> fromJSON [''{\"width\":10,\"height\":20}''
               \<mapsto> JObject [(''width'', JNumber (10::int)), (''height'', JNumber 20)]]
      Rectangle_prototype ''{\"width\":'' = Inl SyntaxError"
proof -
  let ?parse = "[''{\"width\":10,\"height\":20}''
                   \<mapsto> JObject [(''width'', JNumber (10::int)), (''height'', JNumber 20)]]"
  have ok: "?parse ''{\"width\":10,\"height\":20}''
              = Some (JObject [(''width'', JNumber 10), (''height'', JNumber 20)])"
    by simp
  have bad: "?parse ''{\"width\":'' = None"
    by simp
  from fromJSON_tagged [of ?parse "Rectangle_prototype" "''{\"width\":10,\"height\":20}''"] ok
  have 1: "fromJSON ?parse Rectangle_prototype ''{\"width\":10,\"height\":20}''
             = Inr (Tagged Rectangle_prototype
                      (JObject [(''width'', JNumber 10), (''height'', JNumber 20)]))"
    by blast
  from fromJSON_tagged [of ?parse "Rectangle_prototype" "''{\"width\":''"] bad
  have 2: "fromJSON ?parse Rectangle_prototype ''{\"width\":'' = Inl SyntaxError"
    by blast
  from 1 2 show ?thesis ..
qed

end
